theory Spec2Isabelle
  imports Main
begin

section \<open>Data model\<close>

subsection \<open>Errors\<close>

text \<open>
  A Go \<^verbatim>\<open>error\<close> value is either a plain error carrying a message or the
  result of \<^verbatim>\<open>fmt.Errorf\<close> with the verb \<^verbatim>\<open>%w\<close>: the text before the
  verb together with the wrapped error, which \<^verbatim>\<open>errors.Unwrap\<close> gives back.
  The nil error is \<open>None\<close> of \<open>error option\<close>.
\<close>

datatype error = Plain string | Errorf_w string error

fun Unwrap :: "error \<Rightarrow> error option" where
  "Unwrap (Plain msg) = None"
| "Unwrap (Errorf_w msg inner) = Some inner"

text \<open>
  The chain that repeated \<^verbatim>\<open>Unwrap\<close> walks, as \<^verbatim>\<open>errors.Is\<close> does: the
  error itself, then what it wraps.
\<close>

fun chain :: "error \<Rightarrow> error list" where
  "chain (Plain msg) = [Plain msg]"
| "chain (Errorf_w msg inner) = Errorf_w msg inner # chain inner"

text \<open>
  \<open>errors_Is err target\<close>: the walk from \<open>err\<close> arrives at \<open>target\<close>. Errors are
  values here, so arriving at the target is equality of values; Go compares
  comparable errors with \<^verbatim>\<open>==\<close>, which for pointer errors is identity. An
  error that the walk does not arrive at in this sense is not found by
  \<^verbatim>\<open>errors.Is\<close> either.
\<close>

definition errors_Is :: "error \<Rightarrow> error \<Rightarrow> bool" where
  "errors_Is err target = (target \<in> set (chain err))"

subsection \<open>Transaction handles, interface values and contexts\<close>

text \<open>
  \<^verbatim>\<open>pgx.Tx\<close> is an interface: a value of it is nil or a live handle. A pool is
  the address behind \<^verbatim>\<open>*pgxpool.Pool\<close>.
\<close>

type_synonym tx_handle = nat
type_synonym Tx = "tx_handle option"
type_synonym pool = nat

text \<open>
  What a context stores is an \<^verbatim>\<open>any\<close>: nil, a transaction handle, or a value
  of some other dynamic type. Keys are compared with their dynamic type: the
  package's own \<^verbatim>\<open>type key string\<close> is distinct from every other key type.
\<close>

datatype any = AnyNil | AnyTx tx_handle | AnyOther string

datatype ctx_key = Key string | ForeignKey string

definition TxKey :: ctx_key where
  "TxKey = Key ''tx''"

datatype "context" = Background | WithValue "context" ctx_key any

text \<open>\<^verbatim>\<open>ctx.Value(k)\<close>: the innermost binding of the key, nil when there is none.\<close>

fun Value :: "context \<Rightarrow> ctx_key \<Rightarrow> any" where
  "Value Background k = AnyNil"
| "Value (WithValue parent key val) k = (if key = k then val else Value parent k)"

text \<open>Storing an interface value in an \<^verbatim>\<open>any\<close> keeps nil as nil.\<close>

fun any_of_Tx :: "Tx \<Rightarrow> any" where
  "any_of_Tx None = AnyNil"
| "any_of_Tx (Some h) = AnyTx h"

text \<open>
  The two-result type assertion \<^verbatim>\<open>v.(pgx.Tx)\<close>: the handle and true when the
  dynamic type implements the interface, the zero value and false otherwise
  (also for nil).
\<close>

fun assert_Tx :: "any \<Rightarrow> Tx \<times> bool" where
  "assert_Tx (AnyTx h) = (Some h, True)"
| "assert_Tx AnyNil = (None, False)"
| "assert_Tx (AnyOther v) = (None, False)"

definition MakeContextTx :: "context \<Rightarrow> Tx \<Rightarrow> context" where
  "MakeContextTx ctx tx = WithValue ctx TxKey (any_of_Tx tx)"

subsection \<open>The database seen from this layer\<close>

record TxOptions =
  IsoLevel :: string

definition ReadCommitted_level :: string where
  "ReadCommitted_level = ''read committed''"

datatype target = ToPool pool | ToTx tx_handle

datatype call =
    CallExec string "string list"
  | CallQuery string "string list"
  | CallQueryRow string "string list"
  | CallCopyFrom "string list" "string list" "string list list"

text \<open>Every call that reaches the pool or a transaction handle is recorded.\<close>

datatype event =
    EvBeginTx pool TxOptions
  | EvCommit tx_handle
  | EvRollback tx_handle
  | EvOp target call
  | EvPing pool
  | EvClose pool

type_synonym world = "event list"

type_synonym CommandTag = string
type_synonym Row = "string list"
type_synonym Rows = "string list list"

text \<open>
  The pool and its handles are external: what each call answers is a parameter,
  a function of the calls made so far.
\<close>

record env =
  BeginTx_res :: "world \<Rightarrow> pool \<Rightarrow> TxOptions \<Rightarrow> Tx \<times> error option"
  Commit_res :: "world \<Rightarrow> tx_handle \<Rightarrow> error option"
  Rollback_res :: "world \<Rightarrow> tx_handle \<Rightarrow> error option"
  Exec_res :: "world \<Rightarrow> target \<Rightarrow> string \<Rightarrow> string list \<Rightarrow> CommandTag \<times> error option"
  Query_res :: "world \<Rightarrow> target \<Rightarrow> string \<Rightarrow> string list \<Rightarrow> Rows \<times> error option"
  QueryRow_res :: "world \<Rightarrow> target \<Rightarrow> string \<Rightarrow> string list \<Rightarrow> Row"
  CopyFrom_res :: "world \<Rightarrow> target \<Rightarrow> string list \<Rightarrow> string list \<Rightarrow> string list list
                     \<Rightarrow> int \<times> error option"
  Ping_res :: "world \<Rightarrow> pool \<Rightarrow> error option"

text \<open>A call returns or panics; the panic carries its value, printed.\<close>

datatype 'a outcome = Returned 'a | Panicked string

definition target_Exec :: "env \<Rightarrow> target \<Rightarrow> string \<Rightarrow> string list \<Rightarrow> world
    \<Rightarrow> (CommandTag \<times> error option) \<times> world" where
  "target_Exec E t sql args w = (Exec_res E w t sql args, w @ [EvOp t (CallExec sql args)])"

definition target_Query :: "env \<Rightarrow> target \<Rightarrow> string \<Rightarrow> string list \<Rightarrow> world
    \<Rightarrow> (Rows \<times> error option) \<times> world" where
  "target_Query E t sql args w = (Query_res E w t sql args, w @ [EvOp t (CallQuery sql args)])"

definition target_QueryRow :: "env \<Rightarrow> target \<Rightarrow> string \<Rightarrow> string list \<Rightarrow> world
    \<Rightarrow> Row \<times> world" where
  "target_QueryRow E t sql args w =
     (QueryRow_res E w t sql args, w @ [EvOp t (CallQueryRow sql args)])"

definition target_CopyFrom :: "env \<Rightarrow> target \<Rightarrow> string list \<Rightarrow> string list
    \<Rightarrow> string list list \<Rightarrow> world \<Rightarrow> (int \<times> error option) \<times> world" where
  "target_CopyFrom E t tableName columnNames rowSrc w =
     (CopyFrom_res E w t tableName columnNames rowSrc,
      w @ [EvOp t (CallCopyFrom tableName columnNames rowSrc)])"

definition pool_BeginTx :: "env \<Rightarrow> pool \<Rightarrow> TxOptions \<Rightarrow> world
    \<Rightarrow> (Tx \<times> error option) \<times> world" where
  "pool_BeginTx E p txOptions w = (BeginTx_res E w p txOptions, w @ [EvBeginTx p txOptions])"

definition pool_Ping :: "env \<Rightarrow> pool \<Rightarrow> world \<Rightarrow> error option \<times> world" where
  "pool_Ping E p w = (Ping_res E w p, w @ [EvPing p])"

definition pool_Close :: "pool \<Rightarrow> world \<Rightarrow> world" where
  "pool_Close p w = w @ [EvClose p]"

text \<open>
  \<^verbatim>\<open>tx.Commit\<close> and \<^verbatim>\<open>tx.Rollback\<close> are method calls on an interface value:
  on nil the call is a nil dereference, a run-time panic.
\<close>

definition nil_dereference :: string where
  "nil_dereference = ''runtime error: invalid memory address or nil pointer dereference''"

fun tx_Commit :: "env \<Rightarrow> Tx \<Rightarrow> world \<Rightarrow> error option outcome \<times> world" where
  "tx_Commit E None w = (Panicked nil_dereference, w)"
| "tx_Commit E (Some h) w = (Returned (Commit_res E w h), w @ [EvCommit h])"

fun tx_Rollback :: "env \<Rightarrow> Tx \<Rightarrow> world \<Rightarrow> error option outcome \<times> world" where
  "tx_Rollback E None w = (Panicked nil_dereference, w)"
| "tx_Rollback E (Some h) w = (Returned (Rollback_res E w h), w @ [EvRollback h])"

section \<open>The dispatching executor (transactor.go)\<close>

record pgTransactor =
  dbc :: pool

text \<open>
  Each method asserts the value under \<open>TxKey\<close> to a transaction handle and calls
  the handle when the assertion holds, the pool otherwise. The receiver is a
  value: a method reads \<open>dbc\<close> and has nothing of it to write.
\<close>

definition pgTransactor_Exec :: "env \<Rightarrow> pgTransactor \<Rightarrow> context \<Rightarrow> string \<Rightarrow> string list
    \<Rightarrow> world \<Rightarrow> (CommandTag \<times> error option) \<times> world" where
  "pgTransactor_Exec E p ctx sql args w =
     (case assert_Tx (Value ctx TxKey) of
        (Some tx, True) \<Rightarrow> target_Exec E (ToTx tx) sql args w
      | _ \<Rightarrow> target_Exec E (ToPool (dbc p)) sql args w)"

definition pgTransactor_Query :: "env \<Rightarrow> pgTransactor \<Rightarrow> context \<Rightarrow> string \<Rightarrow> string list
    \<Rightarrow> world \<Rightarrow> (Rows \<times> error option) \<times> world" where
  "pgTransactor_Query E p ctx sql args w =
     (case assert_Tx (Value ctx TxKey) of
        (Some tx, True) \<Rightarrow> target_Query E (ToTx tx) sql args w
      | _ \<Rightarrow> target_Query E (ToPool (dbc p)) sql args w)"

definition pgTransactor_QueryRow :: "env \<Rightarrow> pgTransactor \<Rightarrow> context \<Rightarrow> string \<Rightarrow> string list
    \<Rightarrow> world \<Rightarrow> Row \<times> world" where
  "pgTransactor_QueryRow E p ctx sql args w =
     (case assert_Tx (Value ctx TxKey) of
        (Some tx, True) \<Rightarrow> target_QueryRow E (ToTx tx) sql args w
      | _ \<Rightarrow> target_QueryRow E (ToPool (dbc p)) sql args w)"

definition pgTransactor_CopyFrom :: "env \<Rightarrow> pgTransactor \<Rightarrow> context \<Rightarrow> string list
    \<Rightarrow> string list \<Rightarrow> string list list \<Rightarrow> world \<Rightarrow> (int \<times> error option) \<times> world" where
  "pgTransactor_CopyFrom E p ctx tableName columnNames rowSrc w =
     (case assert_Tx (Value ctx TxKey) of
        (Some tx, True) \<Rightarrow> target_CopyFrom E (ToTx tx) tableName columnNames rowSrc w
      | _ \<Rightarrow> target_CopyFrom E (ToPool (dbc p)) tableName columnNames rowSrc w)"

definition pgTransactor_BeginTx :: "env \<Rightarrow> pgTransactor \<Rightarrow> context \<Rightarrow> TxOptions \<Rightarrow> world
    \<Rightarrow> (Tx \<times> error option) \<times> world" where
  "pgTransactor_BeginTx E p ctx txOptions w = pool_BeginTx E (dbc p) txOptions w"

definition pgTransactor_Ping :: "env \<Rightarrow> pgTransactor \<Rightarrow> context \<Rightarrow> world
    \<Rightarrow> error option \<times> world" where
  "pgTransactor_Ping E p ctx w = pool_Ping E (dbc p) w"

definition pgTransactor_Close :: "pgTransactor \<Rightarrow> world \<Rightarrow> world" where
  "pgTransactor_Close p w = pool_Close (dbc p) w"

section \<open>The transaction manager\<close>

text \<open>
  The manager holds a \<^verbatim>\<open>Transactor\<close>; the one the package builds is its
  \<^verbatim>\<open>pgTransactor\<close>, whose \<^verbatim>\<open>BeginTx\<close> gives a handle when it gives no error.
\<close>

record manager =
  db :: pgTransactor

text \<open>\<^verbatim>\<open>NewTransactionManager\<close> stores the transactor it is given.\<close>

definition NewTransactionManager :: "pgTransactor \<Rightarrow> manager" where
  "NewTransactionManager d = \<lparr>db = d\<rparr>"

text \<open>
  A \<^verbatim>\<open>Handler\<close> is a Go function of the context: it acts on the database and
  returns an error (nil or not), or panics.
\<close>

type_synonym Handler = "context \<Rightarrow> world \<Rightarrow> error option outcome \<times> world"

text \<open>
  The deferred function of \<^verbatim>\<open>transaction\<close>. \<open>r\<close> is what \<^verbatim>\<open>recover()\<close>
  gives (\<open>None\<close> when the handler did not panic; a panic's value is never nil
  from Go 1.21 on), \<open>err\<close> the named result when the deferred function starts.
  What it leaves in \<open>err\<close> is what \<^verbatim>\<open>transaction\<close> returns. A panic inside
  the deferred function itself is not recovered.
\<close>

definition transaction_deferred :: "env \<Rightarrow> Tx \<Rightarrow> string option \<Rightarrow> error option \<Rightarrow> world
    \<Rightarrow> error option outcome \<times> world" where
  "transaction_deferred E tx r err0 w =
     (let err = (case r of Some v \<Rightarrow> Some (Plain (''panic recovered: '' @ v)) | None \<Rightarrow> err0)
      in case err of
           Some e \<Rightarrow>
             (case tx_Rollback E tx w of
                (Panicked v, w') \<Rightarrow> (Panicked v, w')
              | (Returned (Some errRollback), w') \<Rightarrow>
                  (Returned (Some (Errorf_w ''errRollback: '' errRollback)), w')
              | (Returned None, w') \<Rightarrow> (Returned (Some e), w'))
         | None \<Rightarrow>
             (case tx_Commit E tx w of
                (Panicked v, w') \<Rightarrow> (Panicked v, w')
              | (Returned (Some errCommit), w') \<Rightarrow>
                  (Returned (Some (Errorf_w ''tx commit failed: '' errCommit)), w')
              | (Returned None, w') \<Rightarrow> (Returned None, w')))"

definition cant_begin :: string where
  "cant_begin = ''can'' @ [CHR 0x27] @ ''t begin transaction ''"

definition transaction :: "env \<Rightarrow> manager \<Rightarrow> context \<Rightarrow> TxOptions \<Rightarrow> Handler \<Rightarrow> world
    \<Rightarrow> error option outcome \<times> world" where
  "transaction E m ctx opts fn w =
     (case assert_Tx (Value ctx TxKey) of
        (tx, True) \<Rightarrow> fn ctx w
      | (tx, False) \<Rightarrow>
          (case pgTransactor_BeginTx E (db m) ctx opts w of
             ((tx, Some e), w1) \<Rightarrow> (Returned (Some (Errorf_w cant_begin e)), w1)
           | ((tx, None), w1) \<Rightarrow>
               (let ctx' = MakeContextTx ctx tx
                in case fn ctx' w1 of
                     (Panicked v, w2) \<Rightarrow> transaction_deferred E tx (Some v) None w2
                   | (Returned (Some e), w2) \<Rightarrow>
                       transaction_deferred E tx None
                         (Some (Errorf_w ''failed executing code inside transaction: '' e)) w2
                   | (Returned None, w2) \<Rightarrow> transaction_deferred E tx None None w2)))"

definition ReadCommitted :: "env \<Rightarrow> manager \<Rightarrow> context \<Rightarrow> Handler \<Rightarrow> world
    \<Rightarrow> error option outcome \<times> world" where
  "ReadCommitted E m ctx f w = transaction E m ctx \<lparr>IsoLevel = ReadCommitted_level\<rparr> f w"

section \<open>Handlers that use the executor and the manager\<close>

text \<open>
  The handlers of a call chain, as the package's example writes them: a handler
  calls the executor with its context, runs a further handler through
  \<^verbatim>\<open>ReadCommitted\<close> with its context and goes on with the error that comes
  back, derives a context with \<^verbatim>\<open>context.WithValue\<close>, returns, or panics.
\<close>

datatype prog =
    Return "error option"
  | Panic string
  | Exec string "string list" "CommandTag \<times> error option \<Rightarrow> prog"
  | Query string "string list" "Rows \<times> error option \<Rightarrow> prog"
  | QueryRow string "string list" "Row \<Rightarrow> prog"
  | CopyFrom "string list" "string list" "string list list" "int \<times> error option \<Rightarrow> prog"
  | InTransaction prog "error option \<Rightarrow> prog"
  | Bind ctx_key any prog

primrec run :: "env \<Rightarrow> manager \<Rightarrow> pgTransactor \<Rightarrow> prog \<Rightarrow> Handler" where
  "run E m p (Return err) = (\<lambda>ctx w. (Returned err, w))"
| "run E m p (Panic v) = (\<lambda>ctx w. (Panicked v, w))"
| "run E m p (Exec sql args k) =
     (\<lambda>ctx w. case pgTransactor_Exec E p ctx sql args w of (r, w') \<Rightarrow> run E m p (k r) ctx w')"
| "run E m p (Query sql args k) =
     (\<lambda>ctx w. case pgTransactor_Query E p ctx sql args w of (r, w') \<Rightarrow> run E m p (k r) ctx w')"
| "run E m p (QueryRow sql args k) =
     (\<lambda>ctx w. case pgTransactor_QueryRow E p ctx sql args w of (r, w') \<Rightarrow> run E m p (k r) ctx w')"
| "run E m p (CopyFrom tableName columnNames rowSrc k) =
     (\<lambda>ctx w. case pgTransactor_CopyFrom E p ctx tableName columnNames rowSrc w of
                 (r, w') \<Rightarrow> run E m p (k r) ctx w')"
| "run E m p (InTransaction h k) =
     (\<lambda>ctx w. case ReadCommitted E m ctx (run E m p h) w of
                 (Returned err, w') \<Rightarrow> run E m p (k err) ctx w'
               | (Panicked v, w') \<Rightarrow> (Panicked v, w'))"
| "run E m p (Bind key val h) = (\<lambda>ctx w. run E m p h (WithValue ctx key val) w)"

text \<open>A handler keeps the handle bound: it binds the reserved key to handles only.\<close>

primrec keeps_tx :: "prog \<Rightarrow> bool" where
  "keeps_tx (Return err) = True"
| "keeps_tx (Panic v) = True"
| "keeps_tx (Exec sql args k) = (\<forall>r. keeps_tx (k r))"
| "keeps_tx (Query sql args k) = (\<forall>r. keeps_tx (k r))"
| "keeps_tx (QueryRow sql args k) = (\<forall>r. keeps_tx (k r))"
| "keeps_tx (CopyFrom tableName columnNames rowSrc k) = (\<forall>r. keeps_tx (k r))"
| "keeps_tx (InTransaction h k) = (keeps_tx h \<and> (\<forall>err. keeps_tx (k err)))"
| "keeps_tx (Bind key val h) = ((key \<noteq> TxKey \<or> snd (assert_Tx val)) \<and> keeps_tx h)"

text \<open>The calls that open or end a transaction.\<close>

fun is_begin :: "event \<Rightarrow> bool" where
  "is_begin (EvBeginTx p opts) = True"
| "is_begin e = False"

fun is_terminal :: "event \<Rightarrow> bool" where
  "is_terminal (EvCommit h) = True"
| "is_terminal (EvRollback h) = True"
| "is_terminal e = False"

section \<open>Routing rule, call sequences and concrete instances\<close>

text \<open>
  The routing rule in the words of the specification: to the handle if one is
  bound in the context, else to the pool.
\<close>

definition spec_route :: "pgTransactor \<Rightarrow> context \<Rightarrow> target" where
  "spec_route p ctx =
     (case assert_Tx (Value ctx TxKey) of (Some tx, True) \<Rightarrow> ToTx tx | _ \<Rightarrow> ToPool (dbc p))"

text \<open>
  The four routed methods as one operation on the record of calls, and a
  sequence of such calls made through the same executor, each with a context
  of its own.
\<close>

fun pgTransactor_call :: "env \<Rightarrow> pgTransactor \<Rightarrow> context \<Rightarrow> call \<Rightarrow> world \<Rightarrow> world" where
  "pgTransactor_call E p ctx (CallExec sql args) w = snd (pgTransactor_Exec E p ctx sql args w)"
| "pgTransactor_call E p ctx (CallQuery sql args) w = snd (pgTransactor_Query E p ctx sql args w)"
| "pgTransactor_call E p ctx (CallQueryRow sql args) w =
     snd (pgTransactor_QueryRow E p ctx sql args w)"
| "pgTransactor_call E p ctx (CallCopyFrom tableName columnNames rowSrc) w =
     snd (pgTransactor_CopyFrom E p ctx tableName columnNames rowSrc w)"

fun pgTransactor_calls :: "env \<Rightarrow> pgTransactor \<Rightarrow> (context \<times> call) list \<Rightarrow> world \<Rightarrow> world" where
  "pgTransactor_calls E p [] w = w"
| "pgTransactor_calls E p ((ctx, c) # cs) w =
     pgTransactor_calls E p cs (pgTransactor_call E p ctx c w)"

text \<open>A stretch of calls is quiet when it opens and ends no transaction.\<close>

definition quiet :: "event list \<Rightarrow> bool" where
  "quiet evs = (\<forall>e \<in> set evs. \<not> is_begin e \<and> \<not> is_terminal e)"

subsection \<open>Concrete pools, managers and handlers\<close>

text \<open>
  A pool that answers every call with success, and three that fail at one
  stage each; the handlers follow the package's example: save a user, then
  update it in a nested \<^verbatim>\<open>ReadCommitted\<close>.
\<close>

definition pool0 :: pgTransactor where
  "pool0 = \<lparr>dbc = 0\<rparr>"

definition manager0 :: manager where
  "manager0 = NewTransactionManager pool0"

definition opts0 :: TxOptions where
  "opts0 = \<lparr>IsoLevel = ReadCommitted_level\<rparr>"

definition healthy :: env where
  "healthy = \<lparr>BeginTx_res = (\<lambda>w p opts. (Some 7, None)),
              Commit_res = (\<lambda>w h. None),
              Rollback_res = (\<lambda>w h. None),
              Exec_res = (\<lambda>w t sql args. (''OK'', None)),
              Query_res = (\<lambda>w t sql args. ([], None)),
              QueryRow_res = (\<lambda>w t sql args. []),
              CopyFrom_res = (\<lambda>w t tableName columnNames rowSrc. (int (length rowSrc), None)),
              Ping_res = (\<lambda>w p. None)\<rparr>"

definition begin_fails :: env where
  "begin_fails = healthy\<lparr>BeginTx_res := (\<lambda>w p opts. (None, Some (Plain ''pool closed'')))\<rparr>"

definition rollback_fails :: env where
  "rollback_fails = healthy\<lparr>Rollback_res := (\<lambda>w h. Some (Plain ''connection lost''))\<rparr>"

text \<open>A rollback that fails with the very error the handler returned.\<close>

definition rollback_echoes :: env where
  "rollback_echoes = healthy\<lparr>Rollback_res := (\<lambda>w h. Some (Plain ''boom''))\<rparr>"

definition commit_fails :: env where
  "commit_fails = healthy\<lparr>Commit_res := (\<lambda>w h. Some (Plain ''serialization failure''))\<rparr>"

definition save_nested :: prog where
  "save_nested =
     Exec ''INSERT INTO users_v5'' [''username'']
       (\<lambda>r. case snd r of
               Some e \<Rightarrow> Return (Some e)
             | None \<Rightarrow> InTransaction
                         (Exec ''UPDATE users_v5'' [''new_username''] (\<lambda>r. Return (snd r)))
                         Return)"

definition save_fail :: prog where
  "save_fail = Exec ''INSERT INTO users_v5'' [''username''] (\<lambda>r. Return (Some (Plain ''boom'')))"

definition save_panic :: prog where
  "save_panic = Exec ''INSERT INTO users_v5'' [''username''] (\<lambda>r. Panic ''index out of range'')"

definition save_ok :: prog where
  "save_ok = Exec ''INSERT INTO users_v5'' [''username''] (\<lambda>r. Return None)"

definition ctx_tx7 :: "context" where
  "ctx_tx7 = MakeContextTx Background (Some 7)"

section \<open>Properties\<close>

subsection \<open>Contexts that carry a handle\<close>

lemma transaction_bound:
  "snd (assert_Tx (Value ctx TxKey)) \<Longrightarrow> transaction E m ctx opts fn w = fn ctx w"
  by (auto simp: transaction_def split: prod.splits bool.splits)

lemma quiet_simps [simp]: "quiet []" "quiet (evs @ evs') = (quiet evs \<and> quiet evs')"
  "quiet [EvOp t c]"
  by (auto simp: quiet_def)

lemma Exec_appends: "\<exists>t c. snd (pgTransactor_Exec E p ctx sql args w) = w @ [EvOp t c]"
  by (auto simp: pgTransactor_Exec_def target_Exec_def split: prod.splits option.splits bool.splits)

lemma Query_appends: "\<exists>t c. snd (pgTransactor_Query E p ctx sql args w) = w @ [EvOp t c]"
  by (auto simp: pgTransactor_Query_def target_Query_def split: prod.splits option.splits bool.splits)

lemma QueryRow_appends: "\<exists>t c. snd (pgTransactor_QueryRow E p ctx sql args w) = w @ [EvOp t c]"
  by (auto simp: pgTransactor_QueryRow_def target_QueryRow_def split: prod.splits option.splits bool.splits)

lemma CopyFrom_appends:
  "\<exists>t c. snd (pgTransactor_CopyFrom E p ctx tn cn rs w) = w @ [EvOp t c]"
  by (auto simp: pgTransactor_CopyFrom_def target_CopyFrom_def split: prod.splits option.splits bool.splits)

text \<open>
  Under a context that carries a handle, a handler that keeps the handle bound
  opens and ends no transaction, however deep its nested calls go: each
  \<^verbatim>\<open>ReadCommitted\<close> inside it only runs the handler it is given.
\<close>

lemma run_bound:
  "keeps_tx h \<Longrightarrow> snd (assert_Tx (Value ctx TxKey)) \<Longrightarrow>
   \<exists>evs. snd (run E m p h ctx w) = w @ evs \<and> quiet evs"
proof (induction h arbitrary: ctx w)
  case (Return x)
  then show ?case by simp
next
  case (Panic x)
  then show ?case by simp
next
  case (Exec sql args k)
  obtain r w' where r: "pgTransactor_Exec E p ctx sql args w = (r, w')" by fastforce
  with Exec_appends[of E p ctx sql args w] obtain t c where w': "w' = w @ [EvOp t c]" by auto
  from Exec.prems(1) have "keeps_tx (k r)" unfolding keeps_tx.simps by blast
  from Exec.IH[OF _ this Exec.prems(2), of w'] obtain evs where
    "snd (run E m p (k r) ctx w') = w' @ evs" "quiet evs" by auto
  with r w' show ?case by (auto intro!: exI[of _ "EvOp t c # evs"] simp: quiet_def)
next
  case (Query sql args k)
  obtain r w' where r: "pgTransactor_Query E p ctx sql args w = (r, w')" by fastforce
  with Query_appends[of E p ctx sql args w] obtain t c where w': "w' = w @ [EvOp t c]" by auto
  from Query.prems(1) have "keeps_tx (k r)" unfolding keeps_tx.simps by blast
  from Query.IH[OF _ this Query.prems(2), of w'] obtain evs where
    "snd (run E m p (k r) ctx w') = w' @ evs" "quiet evs" by auto
  with r w' show ?case by (auto intro!: exI[of _ "EvOp t c # evs"] simp: quiet_def)
next
  case (QueryRow sql args k)
  obtain r w' where r: "pgTransactor_QueryRow E p ctx sql args w = (r, w')" by fastforce
  with QueryRow_appends[of E p ctx sql args w] obtain t c where w': "w' = w @ [EvOp t c]" by auto
  from QueryRow.prems(1) have "keeps_tx (k r)" unfolding keeps_tx.simps by blast
  from QueryRow.IH[OF _ this QueryRow.prems(2), of w'] obtain evs where
    "snd (run E m p (k r) ctx w') = w' @ evs" "quiet evs" by auto
  with r w' show ?case by (auto intro!: exI[of _ "EvOp t c # evs"] simp: quiet_def)
next
  case (CopyFrom tn cn rs k)
  obtain r w' where r: "pgTransactor_CopyFrom E p ctx tn cn rs w = (r, w')" by fastforce
  with CopyFrom_appends[of E p ctx tn cn rs w] obtain t c where w': "w' = w @ [EvOp t c]" by auto
  from CopyFrom.prems(1) have "keeps_tx (k r)" unfolding keeps_tx.simps by blast
  from CopyFrom.IH[OF _ this CopyFrom.prems(2), of w'] obtain evs where
    "snd (run E m p (k r) ctx w') = w' @ evs" "quiet evs" by auto
  with r w' show ?case by (auto intro!: exI[of _ "EvOp t c # evs"] simp: quiet_def)
next
  case (InTransaction h k)
  from InTransaction.prems have kh: "keeps_tx h" and kk: "\<And>e. keeps_tx (k e)" by auto
  have rc: "ReadCommitted E m ctx (run E m p h) w = run E m p h ctx w"
    using InTransaction.prems(2) by (simp add: ReadCommitted_def transaction_bound)
  from InTransaction.IH(1)[OF kh InTransaction.prems(2), of w] obtain evs where
    evs: "snd (run E m p h ctx w) = w @ evs" "quiet evs" by auto
  show ?case
  proof (cases "fst (run E m p h ctx w)")
    case (Returned err)
    from InTransaction.IH(2)[OF _ kk InTransaction.prems(2), of err "w @ evs"] obtain evs' where
      "snd (run E m p (k err) ctx (w @ evs)) = (w @ evs) @ evs'" "quiet evs'" by auto
    with Returned evs rc show ?thesis
      by (auto intro!: exI[of _ "evs @ evs'"] split: prod.splits)
  next
    case (Panicked v)
    with evs rc show ?thesis by (auto split: prod.splits)
  qed
next
  case (Bind key val h)
  from Bind.prems have "snd (assert_Tx (Value (WithValue ctx key val) TxKey))" by auto
  with Bind show ?case by simp
qed

subsection \<open>The outermost call, stage by stage\<close>

lemmas concrete_defs = pool0_def manager0_def NewTransactionManager_def opts0_def healthy_def
  begin_fails_def rollback_fails_def commit_fails_def save_nested_def save_fail_def
  save_panic_def save_ok_def ctx_tx7_def rollback_echoes_def

lemmas model_defs = transaction_def transaction_deferred_def ReadCommitted_def
  pgTransactor_BeginTx_def pool_BeginTx_def pgTransactor_Exec_def target_Exec_def
  pgTransactor_Query_def target_Query_def pgTransactor_QueryRow_def target_QueryRow_def
  pgTransactor_CopyFrom_def target_CopyFrom_def MakeContextTx_def TxKey_def

lemma deferred_Some:
  "transaction_deferred E (Some t) r err0 w =
     (case (case r of Some v \<Rightarrow> Some (Plain (''panic recovered: '' @ v)) | None \<Rightarrow> err0) of
        Some e \<Rightarrow> (Returned (case Rollback_res E w t of
                               Some errRollback \<Rightarrow> Some (Errorf_w ''errRollback: '' errRollback)
                             | None \<Rightarrow> Some e), w @ [EvRollback t])
      | None \<Rightarrow> (Returned (case Commit_res E w t of
                              Some errCommit \<Rightarrow> Some (Errorf_w ''tx commit failed: '' errCommit)
                            | None \<Rightarrow> None), w @ [EvCommit t]))"
  by (simp add: transaction_deferred_def split: option.splits)

lemma transaction_unbound_begin_error:
  assumes "\<not> snd (assert_Tx (Value ctx TxKey))"
    and "BeginTx_res E w (dbc (db m)) opts = (tx, Some e)"
  shows "transaction E m ctx opts fn w =
           (Returned (Some (Errorf_w cant_begin e)), w @ [EvBeginTx (dbc (db m)) opts])"
  using assms
  by (auto simp: transaction_def pgTransactor_BeginTx_def pool_BeginTx_def
      split: prod.splits bool.splits)

lemma transaction_unbound_begun:
  assumes "\<not> snd (assert_Tx (Value ctx TxKey))"
    and "BeginTx_res E w (dbc (db m)) opts = (tx, None)"
  shows "transaction E m ctx opts fn w =
           (case fn (MakeContextTx ctx tx) (w @ [EvBeginTx (dbc (db m)) opts]) of
              (Panicked v, w2) \<Rightarrow> transaction_deferred E tx (Some v) None w2
            | (Returned (Some e), w2) \<Rightarrow>
                transaction_deferred E tx None
                  (Some (Errorf_w ''failed executing code inside transaction: '' e)) w2
            | (Returned None, w2) \<Rightarrow> transaction_deferred E tx None None w2)"
  using assms
  by (auto simp: transaction_def pgTransactor_BeginTx_def pool_BeginTx_def
      split: prod.splits bool.splits)

lemma bound_after_MakeContextTx: "snd (assert_Tx (Value (MakeContextTx ctx (Some t)) TxKey))"
  by (simp add: MakeContextTx_def)

lemma deferred_appends_terminal:
  "\<exists>x. transaction_deferred E (Some t) r err0 w = (Returned x, w @ [EvRollback t])
     \<or> transaction_deferred E (Some t) r err0 w = (Returned x, w @ [EvCommit t])"
  by (simp add: deferred_Some split: option.splits)

lemma outer_shape:
  assumes nb: "\<not> snd (assert_Tx (Value ctx TxKey))"
    and kt: "keeps_tx h"
    and bg: "BeginTx_res E w (dbc (db m)) opts = (Some t, None)"
  shows "\<exists>mid last x. transaction E m ctx opts (run E m p h) w =
            (Returned x, w @ [EvBeginTx (dbc (db m)) opts] @ mid @ [last])
          \<and> quiet mid \<and> (last = EvCommit t \<or> last = EvRollback t)"
proof -
  let ?w1 = "w @ [EvBeginTx (dbc (db m)) opts]"
  let ?ctx = "MakeContextTx ctx (Some t)"
  obtain mid where mid: "snd (run E m p h ?ctx ?w1) = ?w1 @ mid" "quiet mid"
    using run_bound[OF kt bound_after_MakeContextTx] by blast
  obtain body where body: "run E m p h ?ctx ?w1 = (body, ?w1 @ mid)"
    using mid(1) by (cases "run E m p h ?ctx ?w1") simp
  have "\<exists>r err0. transaction E m ctx opts (run E m p h) w =
      transaction_deferred E (Some t) r err0 (?w1 @ mid)"
    unfolding transaction_unbound_begun[OF nb bg] body
    by (cases body) (auto split: option.splits)
  then obtain r err0 where tr: "transaction E m ctx opts (run E m p h) w =
      transaction_deferred E (Some t) r err0 (?w1 @ mid)" by blast
  from deferred_appends_terminal[of E t r err0 "?w1 @ mid"] tr mid(2)
  show ?thesis by auto
qed

subsection \<open>One begin, one commit or rollback\<close>

text \<open>
  Claim C1, as the code has it. A chain of \<^verbatim>\<open>ReadCommitted\<close> calls whose
  handlers keep the handle bound issues, when started from a context without a
  handle, exactly one \<^verbatim>\<open>BeginTx\<close>, and exactly one commit or rollback when
  that \<^verbatim>\<open>BeginTx\<close> succeeded (none when it failed); started from a context
  that carries a handle it issues none of the three. The nesting depth plays no
  part: the handler is any program of the handler language.
\<close>

theorem one_begin_one_terminal:
  assumes "keeps_tx h"
    and "BeginTx_res E w (dbc (db m)) opts = (tx, err)"
    and "err = None \<longrightarrow> tx \<noteq> None"
  shows "\<exists>evs. snd (transaction E m ctx opts (run E m p h) w) = w @ evs
           \<and> (if snd (assert_Tx (Value ctx TxKey))
              then length (filter is_begin evs) = 0 \<and> length (filter is_terminal evs) = 0
              else length (filter is_begin evs) = 1
                 \<and> length (filter is_terminal evs) = (if err = None then 1 else 0))"
proof (cases "snd (assert_Tx (Value ctx TxKey))")
  case True
  from run_bound[OF assms(1) True, of E m p w] obtain evs where
    "snd (run E m p h ctx w) = w @ evs" "quiet evs" by blast
  with True show ?thesis
    by (auto simp: transaction_bound quiet_def filter_empty_conv)
next
  case False
  show ?thesis
  proof (cases err)
    case None
    with assms(3) obtain t where t: "tx = Some t" by auto
    from outer_shape[OF False assms(1) assms(2)[unfolded t None], of p]
    obtain mid l x where
      "transaction E m ctx opts (run E m p h) w =
         (Returned x, w @ [EvBeginTx (dbc (db m)) opts] @ mid @ [l])"
      "quiet mid" "l = EvCommit t \<or> l = EvRollback t" by blast
    with False None show ?thesis
      by (auto simp: quiet_def filter_empty_conv)
  next
    case (Some e)
    with False transaction_unbound_begin_error[OF False assms(2)[unfolded Some]]
    show ?thesis by simp
  qed
qed

text \<open>
  The package's example, run against the healthy pool: two handlers deep, one
  begin and one commit.
\<close>

theorem one_begin_one_terminal_witness:
  "keeps_tx save_nested
   \<and> BeginTx_res healthy [] (dbc (db manager0)) opts0 = (Some 7, None)
   \<and> \<not> snd (assert_Tx (Value Background TxKey))
   \<and> snd (transaction healthy manager0 Background opts0 (run healthy manager0 pool0 save_nested) [])
       = [EvBeginTx 0 opts0,
          EvOp (ToTx 7) (CallExec ''INSERT INTO users_v5'' [''username'']),
          EvOp (ToTx 7) (CallExec ''UPDATE users_v5'' [''new_username'']),
          EvCommit 7]
   \<and> (\<exists>evs. snd (transaction healthy manager0 Background opts0
                   (run healthy manager0 pool0 save_nested) []) = [] @ evs
           \<and> length (filter is_begin evs) = 1 \<and> length (filter is_terminal evs) = 1)"
proof -
  have k: "keeps_tx save_nested"
    by (simp add: save_nested_def split: option.splits)
  have b: "BeginTx_res healthy [] (dbc (db manager0)) opts0 = (Some 7, None)"
    by (simp add: healthy_def)
  have n: "\<not> snd (assert_Tx (Value Background TxKey))" by simp
  have t: "snd (transaction healthy manager0 Background opts0
                  (run healthy manager0 pool0 save_nested) [])
       = [EvBeginTx 0 opts0,
          EvOp (ToTx 7) (CallExec ''INSERT INTO users_v5'' [''username'']),
          EvOp (ToTx 7) (CallExec ''UPDATE users_v5'' [''new_username'']),
          EvCommit 7]"
    by (simp add: concrete_defs model_defs)
  from one_begin_one_terminal[OF k b, of Background pool0] n
  have "\<exists>evs. snd (transaction healthy manager0 Background opts0
                   (run healthy manager0 pool0 save_nested) []) = [] @ evs
           \<and> length (filter is_begin evs) = 1 \<and> length (filter is_terminal evs) = 1"
    by simp
  with k b n t show ?thesis by blast
qed

text \<open>
  When \<^verbatim>\<open>BeginTx\<close> fails, the outermost call has issued one begin and no
  commit or rollback.
\<close>

theorem begin_failure_no_terminal_counterexample:
  "\<not> snd (assert_Tx (Value Background TxKey))
   \<and> snd (ReadCommitted begin_fails manager0 Background
            (run begin_fails manager0 pool0 save_nested) []) = [EvBeginTx 0 opts0]
   \<and> length (filter is_terminal (snd (ReadCommitted begin_fails manager0 Background
            (run begin_fails manager0 pool0 save_nested) []))) \<noteq> 1"
  by (simp add: concrete_defs model_defs)

subsection \<open>The stages of the manager\<close>

text \<open>
  Claim C3. When the context already carries a handle under the reserved key,
  \<^verbatim>\<open>transaction\<close> (and so \<^verbatim>\<open>ReadCommitted\<close>) is the handler applied to
  that same context: the same outcome, unwrapped, and the same calls, so nothing
  is begun, committed or rolled back by the manager.
\<close>

theorem nested_call_runs_handler_directly:
  assumes "snd (assert_Tx (Value ctx TxKey))"
  shows "transaction E m ctx opts fn w = fn ctx w \<and> ReadCommitted E m ctx fn w = fn ctx w"
  using assms by (simp add: ReadCommitted_def transaction_bound)

theorem nested_call_runs_handler_directly_witness:
  "snd (assert_Tx (Value ctx_tx7 TxKey))
   \<and> ReadCommitted healthy manager0 ctx_tx7 (run healthy manager0 pool0 save_fail) []
       = run healthy manager0 pool0 save_fail ctx_tx7 []
   \<and> ReadCommitted healthy manager0 ctx_tx7 (run healthy manager0 pool0 save_fail) []
       = (Returned (Some (Plain ''boom'')),
          [EvOp (ToTx 7) (CallExec ''INSERT INTO users_v5'' [''username''])])"
proof -
  have b: "snd (assert_Tx (Value ctx_tx7 TxKey))"
    by (simp add: ctx_tx7_def MakeContextTx_def)
  have r: "run healthy manager0 pool0 save_fail ctx_tx7 []
       = (Returned (Some (Plain ''boom'')),
          [EvOp (ToTx 7) (CallExec ''INSERT INTO users_v5'' [''username''])])"
    by (simp add: concrete_defs model_defs)
  from nested_call_runs_handler_directly[OF b, of healthy manager0 opts0
      "run healthy manager0 pool0 save_fail" "[]"] b r
  show ?thesis by simp
qed

text \<open>
  Claim C7. When \<^verbatim>\<open>BeginTx\<close> fails in an outermost call, the manager
  returns the begin error wrapped, the only call made is that \<^verbatim>\<open>BeginTx\<close>
  (no commit, no rollback), and the handler plays no part: every handler gives
  the same result.
\<close>

theorem begin_failure_skips_handler:
  assumes "\<not> snd (assert_Tx (Value ctx TxKey))"
    and "BeginTx_res E w (dbc (db m)) opts = (tx, Some e)"
  shows "transaction E m ctx opts fn w =
           (Returned (Some (Errorf_w cant_begin e)), w @ [EvBeginTx (dbc (db m)) opts])
         \<and> Unwrap (Errorf_w cant_begin e) = Some e
         \<and> transaction E m ctx opts fn' w = transaction E m ctx opts fn w"
  using transaction_unbound_begin_error[OF assms] by simp

theorem begin_failure_skips_handler_witness:
  "\<not> snd (assert_Tx (Value Background TxKey))
   \<and> BeginTx_res begin_fails [] (dbc (db manager0)) opts0 = (None, Some (Plain ''pool closed''))
   \<and> transaction begin_fails manager0 Background opts0 (run begin_fails manager0 pool0 save_ok) []
       = (Returned (Some (Errorf_w cant_begin (Plain ''pool closed''))), [EvBeginTx 0 opts0])"
proof -
  have n: "\<not> snd (assert_Tx (Value Background TxKey))" by simp
  have b: "BeginTx_res begin_fails [] (dbc (db manager0)) opts0
             = (None, Some (Plain ''pool closed''))"
    by (simp add: begin_fails_def healthy_def)
  have d: "dbc (db manager0) = 0" by (simp add: concrete_defs)
  from begin_failure_skips_handler[OF n b, of "run begin_fails manager0 pool0 save_ok"] n b d
  show ?thesis by simp
qed

text \<open>
  Claim C6. When the handler of an outermost call returns nil, the one call
  made after it is \<^verbatim>\<open>Commit\<close>; the manager returns nil when the commit
  succeeds and the commit error wrapped when it fails, with no rollback.
\<close>

theorem handler_nil_commits:
  assumes "\<not> snd (assert_Tx (Value ctx TxKey))"
    and "BeginTx_res E w (dbc (db m)) opts = (Some t, None)"
    and "fn (MakeContextTx ctx (Some t)) (w @ [EvBeginTx (dbc (db m)) opts]) = (Returned None, w2)"
  shows "transaction E m ctx opts fn w =
           (Returned (case Commit_res E w2 t of
                        None \<Rightarrow> None
                      | Some errCommit \<Rightarrow> Some (Errorf_w ''tx commit failed: '' errCommit)),
            w2 @ [EvCommit t])"
  unfolding transaction_unbound_begun[OF assms(1,2)] assms(3)
  by (simp add: deferred_Some)

theorem handler_nil_commits_witness:
  "\<not> snd (assert_Tx (Value Background TxKey))
   \<and> transaction healthy manager0 Background opts0 (run healthy manager0 pool0 save_ok) []
       = (Returned None,
          [EvBeginTx 0 opts0, EvOp (ToTx 7) (CallExec ''INSERT INTO users_v5'' [''username'']),
           EvCommit 7])
   \<and> transaction commit_fails manager0 Background opts0 (run commit_fails manager0 pool0 save_ok) []
       = (Returned (Some (Errorf_w ''tx commit failed: '' (Plain ''serialization failure''))),
          [EvBeginTx 0 opts0, EvOp (ToTx 7) (CallExec ''INSERT INTO users_v5'' [''username'']),
           EvCommit 7])"
proof -
  have n: "\<not> snd (assert_Tx (Value Background TxKey))" by simp
  have b1: "BeginTx_res healthy [] (dbc (db manager0)) opts0 = (Some 7, None)"
    by (simp add: healthy_def)
  have b2: "BeginTx_res commit_fails [] (dbc (db manager0)) opts0 = (Some 7, None)"
    by (simp add: commit_fails_def healthy_def)
  have d: "dbc (db manager0) = 0" by (simp add: concrete_defs)
  have h1: "run healthy manager0 pool0 save_ok (MakeContextTx Background (Some 7))
              ([] @ [EvBeginTx (dbc (db manager0)) opts0])
            = (Returned None, [EvBeginTx 0 opts0,
                 EvOp (ToTx 7) (CallExec ''INSERT INTO users_v5'' [''username''])])"
    by (simp add: concrete_defs model_defs)
  have h2: "run commit_fails manager0 pool0 save_ok (MakeContextTx Background (Some 7))
              ([] @ [EvBeginTx (dbc (db manager0)) opts0])
            = (Returned None, [EvBeginTx 0 opts0,
                 EvOp (ToTx 7) (CallExec ''INSERT INTO users_v5'' [''username''])])"
    by (simp add: concrete_defs model_defs)
  have c1: "Commit_res healthy w 7 = None" for w by (simp add: healthy_def)
  have c2: "Commit_res commit_fails w 7 = Some (Plain ''serialization failure'')" for w
    by (simp add: commit_fails_def healthy_def)
  from handler_nil_commits[where fn = "run healthy manager0 pool0 save_ok", OF n b1 h1]
    handler_nil_commits[where fn = "run commit_fails manager0 pool0 save_ok", OF n b2 h2] n c1 c2
  show ?thesis by simp
qed

text \<open>
  Claim C4. When the handler of an outermost call returns a non-nil error, the
  one call made after it is \<^verbatim>\<open>Rollback\<close>; when the rollback succeeds the
  manager returns the handler's error wrapped with the stage text, and
  unwrapping gives the handler's error back.
\<close>

theorem handler_error_rolls_back:
  assumes "\<not> snd (assert_Tx (Value ctx TxKey))"
    and "BeginTx_res E w (dbc (db m)) opts = (Some t, None)"
    and "fn (MakeContextTx ctx (Some t)) (w @ [EvBeginTx (dbc (db m)) opts])
           = (Returned (Some e), w2)"
  shows "snd (transaction E m ctx opts fn w) = w2 @ [EvRollback t]
         \<and> (Rollback_res E w2 t = None \<longrightarrow>
              fst (transaction E m ctx opts fn w)
                = Returned (Some (Errorf_w ''failed executing code inside transaction: '' e))
              \<and> Unwrap (Errorf_w ''failed executing code inside transaction: '' e) = Some e
              \<and> errors_Is (Errorf_w ''failed executing code inside transaction: '' e) e)"
proof -
  have "e \<in> set (chain e)" by (cases e) simp_all
  then show ?thesis
    unfolding transaction_unbound_begun[OF assms(1,2)] assms(3)
    by (simp add: deferred_Some errors_Is_def)
qed

theorem handler_error_rolls_back_witness:
  "\<not> snd (assert_Tx (Value Background TxKey))
   \<and> Rollback_res healthy
        [EvBeginTx 0 opts0, EvOp (ToTx 7) (CallExec ''INSERT INTO users_v5'' [''username''])] 7
      = None
   \<and> transaction healthy manager0 Background opts0 (run healthy manager0 pool0 save_fail) []
       = (Returned (Some (Errorf_w ''failed executing code inside transaction: '' (Plain ''boom''))),
          [EvBeginTx 0 opts0, EvOp (ToTx 7) (CallExec ''INSERT INTO users_v5'' [''username'']),
           EvRollback 7])
   \<and> errors_Is (Errorf_w ''failed executing code inside transaction: '' (Plain ''boom''))
        (Plain ''boom'')"
proof -
  have n: "\<not> snd (assert_Tx (Value Background TxKey))" by simp
  have b: "BeginTx_res healthy [] (dbc (db manager0)) opts0 = (Some 7, None)"
    by (simp add: healthy_def)
  have h: "run healthy manager0 pool0 save_fail (MakeContextTx Background (Some 7))
              ([] @ [EvBeginTx (dbc (db manager0)) opts0])
            = (Returned (Some (Plain ''boom'')), [EvBeginTx 0 opts0,
                 EvOp (ToTx 7) (CallExec ''INSERT INTO users_v5'' [''username''])])"
    by (simp add: concrete_defs model_defs)
  have r: "Rollback_res healthy w 7 = None" for w by (simp add: healthy_def)
  from handler_error_rolls_back[where fn = "run healthy manager0 pool0 save_fail", OF n b h] n r
  show ?thesis by (simp add: prod_eq_iff)
qed

text \<open>
  Claim C5. When the handler of an outermost call panics, \<^verbatim>\<open>transaction\<close>
  returns (it does not panic) with a non-nil error, and the one call made after
  the handler is \<^verbatim>\<open>Rollback\<close>.
\<close>

theorem handler_panic_recovered:
  assumes "\<not> snd (assert_Tx (Value ctx TxKey))"
    and "BeginTx_res E w (dbc (db m)) opts = (Some t, None)"
    and "fn (MakeContextTx ctx (Some t)) (w @ [EvBeginTx (dbc (db m)) opts]) = (Panicked v, w2)"
  shows "transaction E m ctx opts fn w =
           (Returned (Some (case Rollback_res E w2 t of
                              None \<Rightarrow> Plain (''panic recovered: '' @ v)
                            | Some errRollback \<Rightarrow> Errorf_w ''errRollback: '' errRollback)),
            w2 @ [EvRollback t])"
  unfolding transaction_unbound_begun[OF assms(1,2)] assms(3)
  by (simp add: deferred_Some split: option.splits)

theorem handler_panic_recovered_witness:
  "\<not> snd (assert_Tx (Value Background TxKey))
   \<and> run healthy manager0 pool0 save_panic (MakeContextTx Background (Some 7)) [EvBeginTx 0 opts0]
       = (Panicked ''index out of range'',
          [EvBeginTx 0 opts0, EvOp (ToTx 7) (CallExec ''INSERT INTO users_v5'' [''username''])])
   \<and> transaction healthy manager0 Background opts0 (run healthy manager0 pool0 save_panic) []
       = (Returned (Some (Plain ''panic recovered: index out of range'')),
          [EvBeginTx 0 opts0, EvOp (ToTx 7) (CallExec ''INSERT INTO users_v5'' [''username'']),
           EvRollback 7])"
proof -
  have n: "\<not> snd (assert_Tx (Value Background TxKey))" by simp
  have b: "BeginTx_res healthy [] (dbc (db manager0)) opts0 = (Some 7, None)"
    by (simp add: healthy_def)
  have d: "dbc (db manager0) = 0" by (simp add: concrete_defs)
  have h: "run healthy manager0 pool0 save_panic (MakeContextTx Background (Some 7))
              ([] @ [EvBeginTx (dbc (db manager0)) opts0])
            = (Panicked ''index out of range'', [EvBeginTx 0 opts0,
                 EvOp (ToTx 7) (CallExec ''INSERT INTO users_v5'' [''username''])])"
    by (simp add: concrete_defs model_defs)
  have r: "Rollback_res healthy w 7 = None" for w by (simp add: healthy_def)
  from handler_panic_recovered[where fn = "run healthy manager0 pool0 save_panic", OF n b h] n r h d
  show ?thesis by simp
qed

text \<open>
  Claim C2, as the code has it. When the handler returns a non-nil error and
  the rollback fails too, the manager returns the rollback error wrapped, not
  the handler's error. The chain of the returned error is the wrapper followed
  by the chain of the rollback error and nothing else: the handler's error is
  not added to it, so an error (the handler's as any other) is an inner cause
  of the returned error exactly when the rollback error itself is or wraps it.
\<close>

theorem rollback_failure_replaces_handler_error:
  assumes "\<not> snd (assert_Tx (Value ctx TxKey))"
    and "BeginTx_res E w (dbc (db m)) opts = (Some t, None)"
    and "fn (MakeContextTx ctx (Some t)) (w @ [EvBeginTx (dbc (db m)) opts])
           = (Returned (Some e), w2)"
    and "Rollback_res E w2 t = Some errRollback"
  shows "transaction E m ctx opts fn w =
           (Returned (Some (Errorf_w ''errRollback: '' errRollback)), w2 @ [EvRollback t])
         \<and> Unwrap (Errorf_w ''errRollback: '' errRollback) = Some errRollback
         \<and> chain (Errorf_w ''errRollback: '' errRollback)
             = Errorf_w ''errRollback: '' errRollback # chain errRollback
         \<and> (e \<in> set (tl (chain (Errorf_w ''errRollback: '' errRollback)))
              \<longleftrightarrow> errors_Is errRollback e)
         \<and> (x \<in> set (tl (chain (Errorf_w ''errRollback: '' errRollback)))
              \<longleftrightarrow> errors_Is errRollback x)"
  unfolding transaction_unbound_begun[OF assms(1,2)] assms(3)
  by (simp add: deferred_Some assms(4) errors_Is_def)

text \<open>
  Two rollbacks that fail after the handler failed with \<open>boom\<close>: one with
  \<open>connection lost\<close>, under which \<open>boom\<close> is not an inner cause of what the
  manager returns, and one with \<open>boom\<close> itself, under which it is.
\<close>

theorem rollback_failure_replaces_handler_error_witness:
  "\<not> snd (assert_Tx (Value Background TxKey))
   \<and> transaction rollback_fails manager0 Background opts0
        (run rollback_fails manager0 pool0 save_fail) []
       = (Returned (Some (Errorf_w ''errRollback: '' (Plain ''connection lost''))),
          [EvBeginTx 0 opts0, EvOp (ToTx 7) (CallExec ''INSERT INTO users_v5'' [''username'']),
           EvRollback 7])
   \<and> Plain ''boom'' \<notin> set (tl (chain (Errorf_w ''errRollback: '' (Plain ''connection lost''))))
   \<and> transaction rollback_echoes manager0 Background opts0
        (run rollback_echoes manager0 pool0 save_fail) []
       = (Returned (Some (Errorf_w ''errRollback: '' (Plain ''boom''))),
          [EvBeginTx 0 opts0, EvOp (ToTx 7) (CallExec ''INSERT INTO users_v5'' [''username'']),
           EvRollback 7])
   \<and> Plain ''boom'' \<in> set (tl (chain (Errorf_w ''errRollback: '' (Plain ''boom''))))"
proof -
  have n: "\<not> snd (assert_Tx (Value Background TxKey))" by simp
  have b1: "BeginTx_res rollback_fails [] (dbc (db manager0)) opts0 = (Some 7, None)"
    by (simp add: rollback_fails_def healthy_def)
  have b2: "BeginTx_res rollback_echoes [] (dbc (db manager0)) opts0 = (Some 7, None)"
    by (simp add: rollback_echoes_def healthy_def)
  have h1: "run rollback_fails manager0 pool0 save_fail (MakeContextTx Background (Some 7))
              ([] @ [EvBeginTx (dbc (db manager0)) opts0])
            = (Returned (Some (Plain ''boom'')), [EvBeginTx 0 opts0,
                 EvOp (ToTx 7) (CallExec ''INSERT INTO users_v5'' [''username''])])"
    by (simp add: concrete_defs model_defs)
  have h2: "run rollback_echoes manager0 pool0 save_fail (MakeContextTx Background (Some 7))
              ([] @ [EvBeginTx (dbc (db manager0)) opts0])
            = (Returned (Some (Plain ''boom'')), [EvBeginTx 0 opts0,
                 EvOp (ToTx 7) (CallExec ''INSERT INTO users_v5'' [''username''])])"
    by (simp add: concrete_defs model_defs)
  have r1: "Rollback_res rollback_fails
             [EvBeginTx 0 opts0, EvOp (ToTx 7) (CallExec ''INSERT INTO users_v5'' [''username''])] 7
           = Some (Plain ''connection lost'')"
    by (simp add: rollback_fails_def healthy_def)
  have r2: "Rollback_res rollback_echoes
             [EvBeginTx 0 opts0, EvOp (ToTx 7) (CallExec ''INSERT INTO users_v5'' [''username''])] 7
           = Some (Plain ''boom'')"
    by (simp add: rollback_echoes_def healthy_def)
  have i1: "\<not> errors_Is (Plain ''connection lost'') (Plain ''boom'')"
    by (simp add: errors_Is_def)
  have i2: "errors_Is (Plain ''boom'') (Plain ''boom'')"
    by (simp add: errors_Is_def)
  from rollback_failure_replaces_handler_error
         [where fn = "run rollback_fails manager0 pool0 save_fail", OF n b1 h1 r1]
       rollback_failure_replaces_handler_error
         [where fn = "run rollback_echoes manager0 pool0 save_fail", OF n b2 h2 r2]
       n i1 i2
  show ?thesis by simp
qed

text \<open>
  The handler fails with \<open>boom\<close>, the rollback with \<open>connection lost\<close>: the
  returned error does not lead to \<open>boom\<close>.
\<close>

theorem handler_error_lost_counterexample:
  "fst (ReadCommitted rollback_fails manager0 Background
          (run rollback_fails manager0 pool0 save_fail) [])
     = Returned (Some (Errorf_w ''errRollback: '' (Plain ''connection lost'')))
   \<and> fst (run rollback_fails manager0 pool0 save_fail (MakeContextTx Background (Some 7))
            [EvBeginTx 0 opts0]) = Returned (Some (Plain ''boom''))
   \<and> \<not> errors_Is (Errorf_w ''errRollback: '' (Plain ''connection lost'')) (Plain ''boom'')"
  by (simp add: concrete_defs model_defs errors_Is_def)

subsection \<open>The executor\<close>

lemma pgTransactor_call_routes:
  "pgTransactor_call E p ctx c w = w @ [EvOp (spec_route p ctx) c]"
  by (cases c)
     (auto simp: spec_route_def pgTransactor_Exec_def target_Exec_def pgTransactor_Query_def
        target_Query_def pgTransactor_QueryRow_def target_QueryRow_def pgTransactor_CopyFrom_def
        target_CopyFrom_def split: prod.splits option.splits bool.splits)

text \<open>
  Claim C8, as the code has it. \<^verbatim>\<open>Exec\<close>, \<^verbatim>\<open>Query\<close>, \<^verbatim>\<open>QueryRow\<close>
  and \<^verbatim>\<open>CopyFrom\<close> go to the handle bound in the context if there is one and
  to the pool otherwise; \<^verbatim>\<open>BeginTx\<close> goes to the pool whatever the context
  carries.
\<close>

theorem executor_routes_by_context_except_begin:
  "pgTransactor_Exec E p ctx sql args w =
     (Exec_res E w (spec_route p ctx) sql args, w @ [EvOp (spec_route p ctx) (CallExec sql args)])
   \<and> pgTransactor_Query E p ctx sql args w =
     (Query_res E w (spec_route p ctx) sql args, w @ [EvOp (spec_route p ctx) (CallQuery sql args)])
   \<and> pgTransactor_QueryRow E p ctx sql args w =
     (QueryRow_res E w (spec_route p ctx) sql args,
      w @ [EvOp (spec_route p ctx) (CallQueryRow sql args)])
   \<and> pgTransactor_CopyFrom E p ctx tableName columnNames rowSrc w =
     (CopyFrom_res E w (spec_route p ctx) tableName columnNames rowSrc,
      w @ [EvOp (spec_route p ctx) (CallCopyFrom tableName columnNames rowSrc)])
   \<and> pgTransactor_BeginTx E p ctx txOptions w =
     (BeginTx_res E w (dbc p) txOptions, w @ [EvBeginTx (dbc p) txOptions])"
  by (auto simp: spec_route_def pgTransactor_Exec_def target_Exec_def pgTransactor_Query_def
        target_Query_def pgTransactor_QueryRow_def target_QueryRow_def pgTransactor_CopyFrom_def
        target_CopyFrom_def pgTransactor_BeginTx_def pool_BeginTx_def
        split: prod.splits option.splits bool.splits)

theorem executor_routes_by_context_except_begin_witness:
  "spec_route pool0 ctx_tx7 = ToTx 7 \<and> spec_route pool0 Background = ToPool 0
   \<and> snd (pgTransactor_Exec healthy pool0 ctx_tx7 ''UPDATE users_v5'' [] [])
       = [EvOp (ToTx 7) (CallExec ''UPDATE users_v5'' [])]
   \<and> snd (pgTransactor_Exec healthy pool0 Background ''UPDATE users_v5'' [] [])
       = [EvOp (ToPool 0) (CallExec ''UPDATE users_v5'' [])]"
proof -
  have r: "spec_route pool0 ctx_tx7 = ToTx 7" "spec_route pool0 Background = ToPool 0"
    by (simp_all add: spec_route_def concrete_defs model_defs)
  from executor_routes_by_context_except_begin[of healthy pool0 ctx_tx7 "''UPDATE users_v5''" "[]" "[]"]
    executor_routes_by_context_except_begin[of healthy pool0 Background "''UPDATE users_v5''" "[]" "[]"]
    r
  show ?thesis by simp
qed

text \<open>
  With handle 7 bound in the context, \<^verbatim>\<open>BeginTx\<close> still reaches pool 0.
\<close>

theorem begin_ignores_bound_handle_counterexample:
  "assert_Tx (Value ctx_tx7 TxKey) = (Some 7, True)
   \<and> snd (pgTransactor_BeginTx healthy pool0 ctx_tx7 opts0 []) = [EvBeginTx 0 opts0]"
  by (simp add: concrete_defs model_defs)

text \<open>
  Claim C9. The executor has no state of its own to change: in any sequence of
  calls made through it, each call goes where its own context says, whatever
  was called before; \<^verbatim>\<open>BeginTx\<close> after any such sequence still reaches the
  executor's pool; and two calls with the same context reach the same target,
  whichever methods they are and whatever the database has answered.
\<close>

theorem executor_calls_route_by_own_context:
  "pgTransactor_calls E p cs w = w @ map (\<lambda>(ctx, c). EvOp (spec_route p ctx) c) cs
   \<and> snd (pgTransactor_BeginTx E p ctx txOptions (pgTransactor_calls E p cs w))
       = pgTransactor_calls E p cs w @ [EvBeginTx (dbc p) txOptions]
   \<and> (\<exists>t. last (pgTransactor_call E p ctx c w) = EvOp t c
          \<and> last (pgTransactor_call E' p ctx c' w') = EvOp t c')"
proof -
  have "pgTransactor_calls E p cs w = w @ map (\<lambda>(ctx, c). EvOp (spec_route p ctx) c) cs"
    by (induction cs arbitrary: w) (auto simp: pgTransactor_call_routes)
  then show ?thesis
    by (simp add: pgTransactor_call_routes pgTransactor_BeginTx_def pool_BeginTx_def)
qed

theorem executor_calls_route_by_own_context_witness:
  "pgTransactor_calls healthy pool0
     [(ctx_tx7, CallExec ''UPDATE users_v5'' []), (Background, CallQuery ''SELECT 1'' []),
      (ctx_tx7, CallQueryRow ''SELECT 2'' [])] []
   = [EvOp (ToTx 7) (CallExec ''UPDATE users_v5'' []), EvOp (ToPool 0) (CallQuery ''SELECT 1'' []),
      EvOp (ToTx 7) (CallQueryRow ''SELECT 2'' [])]"
proof -
  have r: "spec_route pool0 ctx_tx7 = ToTx 7" "spec_route pool0 Background = ToPool 0"
    by (simp_all add: spec_route_def concrete_defs model_defs)
  from executor_calls_route_by_own_context[of healthy pool0
      "[(ctx_tx7, CallExec ''UPDATE users_v5'' []), (Background, CallQuery ''SELECT 1'' []),
        (ctx_tx7, CallQueryRow ''SELECT 2'' [])]" "[]"] r
  show ?thesis by simp
qed

subsection \<open>The binding round trip\<close>

text \<open>
  A nil interface value stored under the key is not reported as a handle.
\<close>

lemma MakeContextTx_nil: "assert_Tx (Value (MakeContextTx ctx None) TxKey) = (None, False)"
  by (simp add: MakeContextTx_def)

text \<open>
  Claim C10. Looking the reserved key up in \<^verbatim>\<open>MakeContextTx(ctx, tx)\<close> and
  asserting the value to a transaction handle gives \<open>tx\<close> and reports it
  present, for every context and handle; so the executor routes to \<open>tx\<close> and
  the manager takes the call for a nested one.
\<close>

theorem context_binding_roundtrip:
  "assert_Tx (Value (MakeContextTx ctx (Some t)) TxKey) = (Some t, True)
   \<and> pgTransactor_Exec E p (MakeContextTx ctx (Some t)) sql args w
       = target_Exec E (ToTx t) sql args w
   \<and> spec_route p (MakeContextTx ctx (Some t)) = ToTx t
   \<and> transaction E m (MakeContextTx ctx (Some t)) opts fn w = fn (MakeContextTx ctx (Some t)) w"
  by (simp add: MakeContextTx_def pgTransactor_Exec_def spec_route_def transaction_def)

theorem context_binding_roundtrip_witness:
  "assert_Tx (Value (MakeContextTx (WithValue Background (ForeignKey ''request-id'') (AnyOther ''42''))
                      (Some 7)) TxKey) = (Some 7, True)"
  using context_binding_roundtrip[of "WithValue Background (ForeignKey ''request-id'') (AnyOther ''42'')" 7]
  by simp

end
